theory Spec2Isabelle
  imports Main
begin

text \<open>
  The class \<open>GitHubFileStorage\<close> of \<open>lib/GitHubFileStorage.js\<close>, method by method.
  An \<open>async\<close> method is a function from the world before the call to its outcome and
  the world after it; a thrown error (a rejected promise) is \<open>Inl\<close>. The world is the
  state of the remote store, the local directories and files, and the trace of the
  calls made so far. Line numbers are those of the source file.
\<close>

section \<open>JavaScript values used by GitHubFileStorage\<close>

text \<open>
  An argument or a field that may be \<open>undefined\<close> or \<open>null\<close> is an \<open>option\<close>.
  A string is falsy when it is undefined or empty, which is what \<open>!file\<close>,
  \<open>!filepath\<close>, \<open>if (sha)\<close> and \<open>if (fileContent)\<close> test.
\<close>

definition truthy :: "string option \<Rightarrow> bool" where
  "truthy v = (case v of None \<Rightarrow> False | Some s \<Rightarrow> s \<noteq> [])"

text \<open>A default parameter \<open>x = d\<close> takes \<open>d\<close> when the argument is undefined.\<close>

definition or_default :: "'a \<Rightarrow> 'a option \<Rightarrow> 'a" where
  "or_default d v = (case v of None \<Rightarrow> d | Some x \<Rightarrow> x)"

definition startsWith :: "string \<Rightarrow> string \<Rightarrow> bool" where
  "startsWith s p = (take (length p) s = p)"

text \<open>\<open>String.prototype.indexOf\<close>: the index of the first occurrence, or \<open>-1\<close>.\<close>

fun indexOf_from :: "string \<Rightarrow> string \<Rightarrow> nat \<Rightarrow> int" where
  "indexOf_from [] p k = (if p = [] then int k else - 1)"
| "indexOf_from (c # cs) p k =
     (if startsWith (c # cs) p then int k else indexOf_from cs p (Suc k))"

definition indexOf :: "string \<Rightarrow> string \<Rightarrow> int" where
  "indexOf s p = indexOf_from s p 0"

text \<open>\<open>String.prototype.slice\<close> with one argument; a negative index counts from the end.\<close>

definition slice :: "string \<Rightarrow> int \<Rightarrow> string" where
  "slice s i = (if i < 0 then drop (nat (int (length s) + i)) s else drop (nat i) s)"

section \<open>Errors\<close>

text \<open>
  An error thrown by axios carries \<open>error.response\<close> only when the server answered;
  a transport failure (no connection, timeout) has none. The first field of
  \<open>AxiosError\<close> is \<open>error.response.status\<close> when there is a response.
\<close>

datatype error =
    AxiosError "nat option" string
  | TypeError string
  | Error string

fun message :: "error \<Rightarrow> string" where
  "message (AxiosError st m) = m"
| "message (TypeError m) = m"
| "message (Error m) = m"

fun response_status :: "error \<Rightarrow> nat option" where
  "response_status (AxiosError st m) = st"
| "response_status (TypeError m) = None"
| "response_status (Error m) = None"

section \<open>The remote contents API and the local platform\<close>

record item =
  name :: string
  path :: string
  type :: string
  sha :: string
  download_url :: "string option"

text \<open>
  \<open>response.data\<close> of a GET on the contents API: an array of items for a directory,
  an object for a file. Reading \<open>.sha\<close>, \<open>.content\<close> or \<open>.download_url\<close> of an array
  gives \<open>undefined\<close>.
\<close>

datatype data =
    Array "item list"
  | Object "string option" "string option" "string option"

fun data_sha :: "data \<Rightarrow> string option" where
  "data_sha (Array xs) = None"
| "data_sha (Object s c u) = s"

fun data_content :: "data \<Rightarrow> string option" where
  "data_content (Array xs) = None"
| "data_content (Object s c u) = c"

fun data_download_url :: "data \<Rightarrow> string option" where
  "data_download_url (Array xs) = None"
| "data_download_url (Object s c u) = u"

record put_body =
  pb_message :: string
  pb_content :: string
  pb_sha :: "string option"

record delete_body =
  db_message :: string
  db_sha :: "string option"
  db_branch :: string

text \<open>
  Every call that leaves the process is recorded in a trace, in program order. The
  string after a URL is the \<open>Authorization\<close> header.
\<close>

datatype call =
    Get string string
  | GetArrayBuffer "string option" string
  | Put string put_body string
  | Delete string delete_body string
  | MkdirSync string bool
  | CreateWriteStream string
  | Archiver string nat
  | Pipe string
  | Append string string
  | Finalize

text \<open>
  The remote store is a collaborator outside the repository: it is a parameter, four
  functions over a state \<open>'w\<close> of its own. Nothing is assumed about what it answers.
\<close>

record 'w axios =
  ax_get :: "string \<Rightarrow> string \<Rightarrow> 'w \<Rightarrow> (error + data) \<times> 'w"
  ax_get_arraybuffer :: "string option \<Rightarrow> string \<Rightarrow> 'w \<Rightarrow> (error + string) \<times> 'w"
  ax_put :: "string \<Rightarrow> put_body \<Rightarrow> string \<Rightarrow> 'w \<Rightarrow> (error + string) \<times> 'w"
  ax_delete :: "string \<Rightarrow> delete_body \<Rightarrow> string \<Rightarrow> 'w \<Rightarrow> (error + string) \<times> 'w"

text \<open>
  The local file system: the set of existing directories, and for each file that a
  write stream was opened on the archive entries (name and bytes) written to it.
\<close>

record 'w world =
  remote :: 'w
  dirs :: "string set"
  disk :: "string \<Rightarrow> (string \<times> string) list option"
  trace :: "call list"

definition axios_get ::
  "'w axios \<Rightarrow> string \<Rightarrow> string \<Rightarrow> 'w world \<Rightarrow> (error + data) \<times> 'w world" where
  "axios_get ax url auth w =
     (case ax_get ax url auth (remote w) of
        (r, s) \<Rightarrow> (r, w\<lparr>remote := s, trace := trace w @ [Get url auth]\<rparr>))"

definition axios_get_arraybuffer ::
  "'w axios \<Rightarrow> string option \<Rightarrow> string \<Rightarrow> 'w world \<Rightarrow> (error + string) \<times> 'w world" where
  "axios_get_arraybuffer ax url auth w =
     (case ax_get_arraybuffer ax url auth (remote w) of
        (r, s) \<Rightarrow> (r, w\<lparr>remote := s, trace := trace w @ [GetArrayBuffer url auth]\<rparr>))"

definition axios_put ::
  "'w axios \<Rightarrow> string \<Rightarrow> put_body \<Rightarrow> string \<Rightarrow> 'w world \<Rightarrow> (error + string) \<times> 'w world" where
  "axios_put ax url body auth w =
     (case ax_put ax url body auth (remote w) of
        (r, s) \<Rightarrow> (r, w\<lparr>remote := s, trace := trace w @ [Put url body auth]\<rparr>))"

definition axios_delete ::
  "'w axios \<Rightarrow> string \<Rightarrow> delete_body \<Rightarrow> string \<Rightarrow> 'w world \<Rightarrow> (error + string) \<times> 'w world" where
  "axios_delete ax url body auth w =
     (case ax_delete ax url body auth (remote w) of
        (r, s) \<Rightarrow> (r, w\<lparr>remote := s, trace := trace w @ [Delete url body auth]\<rparr>))"

section \<open>GitHubFileStorage\<close>

record storage =
  repo :: string
  token :: string
  apiUrl :: string

definition constructor :: "string option \<Rightarrow> string option \<Rightarrow> error + storage" where
  "constructor repo' token' =
     (if \<not> truthy repo' \<or> \<not> truthy token' then Inl (Error ''Repository and Token are required!'')
      else Inr \<lparr>repo = or_default [] repo', token = or_default [] token',
                apiUrl = ''https://api.github.com/repos/'' @ or_default [] repo' @ ''/contents''\<rparr>)"

definition bearer :: "storage \<Rightarrow> string" where
  "bearer this = ''Bearer '' @ token this"

subsection \<open>upload\<close>

record upload_result =
  ur_message :: string
  ur_data :: "string option"

text \<open>Lines 39 to 43: the data URI prefix is cut off after the first \<open>base64,\<close>.\<close>

definition fileContent_of :: "string \<Rightarrow> string" where
  "fileContent_of file =
     (if startsWith file ''data:''
      then slice file (indexOf file ''base64,'' + int (length ''base64,''))
      else file)"

text \<open>
  Lines 48 to 59: the existence check. The catch rethrows only an error that has a
  response whose status is not 404; every other error leaves \<open>sha\<close> at \<open>null\<close>.
\<close>

definition existing_sha ::
  "'w axios \<Rightarrow> storage \<Rightarrow> string \<Rightarrow> 'w world \<Rightarrow> (error + string option) \<times> 'w world" where
  "existing_sha ax this url w =
     (case axios_get ax url (bearer this) w of
        (Inr d, w1) \<Rightarrow> (Inr (data_sha d), w1)
      | (Inl e, w1) \<Rightarrow>
          (case response_status e of
             Some st \<Rightarrow> (if st \<noteq> 404 then (Inl e, w1) else (Inr None, w1))
           | None \<Rightarrow> (Inr None, w1)))"

definition upload ::
  "'w axios \<Rightarrow> storage \<Rightarrow> string option \<Rightarrow> string option \<Rightarrow> string option \<Rightarrow> bool option
     \<Rightarrow> 'w world \<Rightarrow> (error + upload_result) \<times> 'w world" where
  "upload ax this file filepath' filename' overwrite' w =
     (let filepath = or_default [] filepath';
          filename = or_default ''uploaded_file.txt'' filename';
          overwrite = or_default True overwrite'
      in if \<not> truthy file then (Inl (Error ''File is required''), w)
         else
           let fileContent = fileContent_of (or_default [] file);
               finalFilename = filename;
               finalFilepath = (if filepath \<noteq> [] then filepath else []);
               url = apiUrl this @ ''/'' @ finalFilepath @ ''/'' @ finalFilename
           in (case existing_sha ax this url w of
                 (Inl e, w1) \<Rightarrow> (Inl e, w1)
               | (Inr s, w1) \<Rightarrow>
                   if truthy s \<and> \<not> overwrite
                   then (Inr \<lparr>ur_message = ''File already exists!'', ur_data = None\<rparr>, w1)
                   else
                     let commitMessage =
                           (if truthy s then ''Update '' @ finalFilename
                            else ''Upload '' @ finalFilename);
                         body = \<lparr>pb_message = commitMessage, pb_content = fileContent,
                                 pb_sha = (if truthy s then s else None)\<rparr>
                     in (case axios_put ax url body (bearer this) w1 of
                           (Inl e, w2) \<Rightarrow>
                             (Inl (Error (''Error uploading file to GitHub: '' @ message e)), w2)
                         | (Inr r, w2) \<Rightarrow>
                             (Inr \<lparr>ur_message =
                                     (if truthy s then ''File updated successfully!''
                                      else ''File uploaded successfully!''),
                                   ur_data = Some r\<rparr>, w2))))"

subsection \<open>listAllFiles\<close>

record descriptor =
  d_name :: string
  d_path :: string
  d_type :: string
  d_sha :: string
  d_url :: "string option"

definition descriptor_of :: "item \<Rightarrow> descriptor" where
  "descriptor_of it =
     \<lparr>d_name = name it, d_path = path it, d_type = type it, d_sha = sha it,
      d_url = download_url it\<rparr>"

record list_result =
  lr_message :: string
  lr_files :: "descriptor list"

text \<open>
  The inner function reads \<open>this.apiUrl\<close>, so its receiver is an argument: \<open>None\<close> is
  \<open>undefined\<close>, the receiver of a plain call in strict mode (a class body is strict).
  The list \<open>files\<close> of the enclosing call is passed in and returned. The recursion of
  the source has no bound of its own: the first argument is fuel, one unit for each
  level of directories, and \<open>None\<close> is a walk that ran out of it.
\<close>

definition undefined_apiUrl :: error where
  "undefined_apiUrl = TypeError ''Cannot read properties of undefined (reading 'apiUrl')''"

definition not_iterable :: error where
  "not_iterable = TypeError ''response.data is not iterable''"

fun getFilesInDirectory ::
  "nat \<Rightarrow> 'w axios \<Rightarrow> storage option \<Rightarrow> string \<Rightarrow> descriptor list \<Rightarrow> 'w world
     \<Rightarrow> ((error + descriptor list) \<times> 'w world) option"
and getFilesInDirectory_items ::
  "nat \<Rightarrow> 'w axios \<Rightarrow> storage option \<Rightarrow> item list \<Rightarrow> descriptor list \<Rightarrow> 'w world
     \<Rightarrow> ((error + descriptor list) \<times> 'w world) option"
where
  "getFilesInDirectory 0 ax this p files w = None"
| "getFilesInDirectory (Suc n) ax this p files w =
     (case this of
        None \<Rightarrow> Some (Inl undefined_apiUrl, w)
      | Some s \<Rightarrow>
          (case axios_get ax (apiUrl s @ ''/'' @ p) (bearer s) w of
             (Inl e, w1) \<Rightarrow> Some (Inl e, w1)
           | (Inr (Object sh c u), w1) \<Rightarrow> Some (Inl not_iterable, w1)
           | (Inr (Array items), w1) \<Rightarrow> getFilesInDirectory_items n ax this items files w1))"
| "getFilesInDirectory_items n ax this [] files w = Some (Inr files, w)"
| "getFilesInDirectory_items n ax this (it # items) files w =
     (if type it = ''dir''
      then (case getFilesInDirectory n ax this (path it) files w of
              None \<Rightarrow> None
            | Some (Inl e, w1) \<Rightarrow> Some (Inl e, w1)
            | Some (Inr files1, w1) \<Rightarrow> getFilesInDirectory_items n ax this items files1 w1)
      else getFilesInDirectory_items n ax this items (files @ [descriptor_of it]) w)"

definition listAllFiles ::
  "nat \<Rightarrow> 'w axios \<Rightarrow> storage \<Rightarrow> string option \<Rightarrow> 'w world
     \<Rightarrow> ((error + list_result) \<times> 'w world) option" where
  "listAllFiles fuel ax this filepath' w =
     (let filepath = or_default [] filepath'
      in (case getFilesInDirectory fuel ax (Some this) filepath [] w of
            None \<Rightarrow> None
          | Some (Inl e, w1) \<Rightarrow> Some (Inl e, w1)
          | Some (Inr files, w1) \<Rightarrow>
              Some (Inr \<lparr>lr_message = ''Files retrieved successfully!'', lr_files = files\<rparr>, w1)))"

subsection \<open>download\<close>

datatype download_result = Data string | Url string

definition download ::
  "'w axios \<Rightarrow> storage \<Rightarrow> string option \<Rightarrow> string option \<Rightarrow> 'w world
     \<Rightarrow> (error + download_result) \<times> 'w world" where
  "download ax this filepath filename w =
     (if \<not> truthy filepath \<or> \<not> truthy filename
      then (Inl (Error ''Both filepath and filename are required!''), w)
      else
        let filePath = or_default [] filepath @ ''/'' @ or_default [] filename
        in (case axios_get ax (apiUrl this @ ''/'' @ filePath) (bearer this) w of
              (Inl e, w1) \<Rightarrow> (Inl (Error (''Error downloading file: '' @ message e)), w1)
            | (Inr d, w1) \<Rightarrow>
                let fileContent = data_content d;
                    downloadUrl = data_download_url d
                in if truthy fileContent then (Inr (Data (or_default [] fileContent)), w1)
                   else if truthy downloadUrl then (Inr (Url (or_default [] downloadUrl)), w1)
                   else (Inl (Error (''Error downloading file: ''
                                      @ ''File content or download URL not found'')), w1)))"

subsection \<open>listFilesInDirectory and downloadAll\<close>

record file_ref =
  fr_name :: string
  fr_path :: string
  fr_url :: "string option"

definition file_ref_of :: "item \<Rightarrow> file_ref" where
  "file_ref_of it = \<lparr>fr_name = name it, fr_path = path it, fr_url = download_url it\<rparr>"

text \<open>
  Line 241 calls \<open>getFiles(item.path)\<close> plainly, where line 138 of \<open>listAllFiles\<close> has
  \<open>getFilesInDirectory.call(this, item.path)\<close>: the receiver of the recursive call is
  \<open>undefined\<close>.
\<close>

fun getFiles ::
  "nat \<Rightarrow> 'w axios \<Rightarrow> storage option \<Rightarrow> string \<Rightarrow> file_ref list \<Rightarrow> 'w world
     \<Rightarrow> ((error + file_ref list) \<times> 'w world) option"
and getFiles_items ::
  "nat \<Rightarrow> 'w axios \<Rightarrow> item list \<Rightarrow> file_ref list \<Rightarrow> 'w world
     \<Rightarrow> ((error + file_ref list) \<times> 'w world) option"
where
  "getFiles 0 ax this p files w = None"
| "getFiles (Suc n) ax this p files w =
     (case this of
        None \<Rightarrow> Some (Inl undefined_apiUrl, w)
      | Some s \<Rightarrow>
          (case axios_get ax (apiUrl s @ ''/'' @ p) (bearer s) w of
             (Inl e, w1) \<Rightarrow> Some (Inl e, w1)
           | (Inr (Object sh c u), w1) \<Rightarrow> Some (Inl not_iterable, w1)
           | (Inr (Array items), w1) \<Rightarrow> getFiles_items n ax items files w1))"
| "getFiles_items n ax [] files w = Some (Inr files, w)"
| "getFiles_items n ax (it # items) files w =
     (if type it = ''dir''
      then (case getFiles n ax None (path it) files w of
              None \<Rightarrow> None
            | Some (Inl e, w1) \<Rightarrow> Some (Inl e, w1)
            | Some (Inr files1, w1) \<Rightarrow> getFiles_items n ax items files1 w1)
      else getFiles_items n ax items (files @ [file_ref_of it]) w)"

definition listFilesInDirectory ::
  "nat \<Rightarrow> 'w axios \<Rightarrow> storage \<Rightarrow> string option \<Rightarrow> 'w world
     \<Rightarrow> ((error + file_ref list) \<times> 'w world) option" where
  "listFilesInDirectory fuel ax this filepath' w =
     getFiles fuel ax (Some this) (or_default [] filepath') [] w"

text \<open>
  \<open>path.join\<close> belongs to Node and is a parameter of \<open>downloadAll\<close>.
  \<open>fs.createWriteStream\<close> opens with Node's or_default flag \<open>w\<close>: the file is created,
  or emptied when it exists. The archive is piped to that stream, so an entry appended
  to the archive is an entry of the file.
\<close>

definition existsSync :: "string \<Rightarrow> 'w world \<Rightarrow> bool" where
  "existsSync p w = (p \<in> dirs w)"

definition mkdirSync :: "string \<Rightarrow> bool \<Rightarrow> 'w world \<Rightarrow> 'w world" where
  "mkdirSync p recursive w = w\<lparr>dirs := insert p (dirs w), trace := trace w @ [MkdirSync p recursive]\<rparr>"

definition emit :: "call \<Rightarrow> 'w world \<Rightarrow> 'w world" where
  "emit c w = w\<lparr>trace := trace w @ [c]\<rparr>"

definition createWriteStream :: "string \<Rightarrow> 'w world \<Rightarrow> 'w world" where
  "createWriteStream p w = emit (CreateWriteStream p) (w\<lparr>disk := (disk w)(p \<mapsto> [])\<rparr>)"

definition archive_append :: "string \<Rightarrow> string \<Rightarrow> string \<Rightarrow> 'w world \<Rightarrow> 'w world" where
  "archive_append zipFilePath content nm w =
     emit (Append content nm)
       (w\<lparr>disk := (disk w)(zipFilePath \<mapsto> or_default [] (disk w zipFilePath) @ [(nm, content)])\<rparr>)"

text \<open>Lines 282 to 290: the files are fetched and appended one after the other.\<close>

fun append_files ::
  "'w axios \<Rightarrow> storage \<Rightarrow> string \<Rightarrow> file_ref list \<Rightarrow> 'w world \<Rightarrow> (error + unit) \<times> 'w world" where
  "append_files ax this zipFilePath [] w = (Inr (), w)"
| "append_files ax this zipFilePath (file # files) w =
     (case axios_get_arraybuffer ax (fr_url file) (bearer this) w of
        (Inl e, w1) \<Rightarrow> (Inl e, w1)
      | (Inr fileContent, w1) \<Rightarrow>
          append_files ax this zipFilePath files
            (archive_append zipFilePath fileContent (fr_name file) w1))"

text \<open>
  The promise that \<open>downloadAll\<close> returns after \<open>archive.finalize()\<close>: it holds the
  path it will resolve with. Of the events that follow, the first \<open>close\<close> of the
  output stream resolves it and the first \<open>error\<close> of the archive rejects it; until
  then it is pending.
\<close>

datatype promise = Promise string




definition downloadAll ::
  "nat \<Rightarrow> 'w axios \<Rightarrow> (string list \<Rightarrow> string) \<Rightarrow> storage \<Rightarrow> string option \<Rightarrow> string option
     \<Rightarrow> 'w world \<Rightarrow> ((error + promise) \<times> 'w world) option" where
  "downloadAll fuel ax path_join this filepath' storagePath' w =
     (let filepath = or_default [] filepath';
          storagePath = or_default [] storagePath'
      in (case listFilesInDirectory fuel ax this (Some filepath) w of
            None \<Rightarrow> None
          | Some (Inl e, w1) \<Rightarrow> Some (Inl (Error (''Error downloading files: '' @ message e)), w1)
          | Some (Inr files, w1) \<Rightarrow>
              let fullStoragePath = path_join [storagePath];
                  w2 = (if \<not> existsSync fullStoragePath w1
                        then mkdirSync fullStoragePath True w1 else w1);
                  zipFilePath = path_join [fullStoragePath, ''output.zip''];
                  w3 = createWriteStream zipFilePath w2;
                  w4 = emit (Archiver ''zip'' 9) w3;
                  w5 = emit (Pipe zipFilePath) w4
              in (case append_files ax this zipFilePath files w5 of
                    (Inl e, w6) \<Rightarrow>
                      Some (Inl (Error (''Error downloading files: '' @ message e)), w6)
                  | (Inr u, w6) \<Rightarrow> Some (Inr (Promise zipFilePath), emit Finalize w6))))"

subsection \<open>deleteFile\<close>

record delete_result =
  dr_message :: string
  dr_data :: string

definition deleteFile ::
  "'w axios \<Rightarrow> storage \<Rightarrow> string option \<Rightarrow> string option \<Rightarrow> 'w world
     \<Rightarrow> (error + delete_result) \<times> 'w world" where
  "deleteFile ax this filepath filename w =
     (if \<not> truthy filepath \<or> \<not> truthy filename
      then (Inl (Error ''Both filepath and filename are required!''), w)
      else
        let filePath = or_default [] filepath @ ''/'' @ or_default [] filename;
            url = apiUrl this @ ''/'' @ filePath
        in (case axios_get ax url (bearer this) w of
              (Inl e, w1) \<Rightarrow> (Inl (Error (''Error deleting file: '' @ message e)), w1)
            | (Inr d, w1) \<Rightarrow>
                let sha = data_sha d;
                    commitMessage = ''Delete '' @ or_default [] filename;
                    body = \<lparr>db_message = commitMessage, db_sha = sha, db_branch = ''main''\<rparr>
                in (case axios_delete ax url body (bearer this) w1 of
                      (Inl e, w2) \<Rightarrow> (Inl (Error (''Error deleting file: '' @ message e)), w2)
                    | (Inr r, w2) \<Rightarrow>
                        (Inr \<lparr>dr_message = ''File deleted successfully!'', dr_data = r\<rparr>, w2))))"

section \<open>Trees of the remote store\<close>

text \<open>
  A subtree of the store as the contents API presents it: a file entry, or a
  directory entry with the entries that a listing of its path returns, in the order
  of the listing.
\<close>

datatype tree = File item | Dir item "tree list"

fun root_item :: "tree \<Rightarrow> item" where
  "root_item (File i) = i"
| "root_item (Dir i cs) = i"

fun leaves :: "tree \<Rightarrow> item list" where
  "leaves (File i) = [i]"
| "leaves (Dir i cs) = concat (map leaves cs)"

fun height :: "tree \<Rightarrow> nat" where
  "height (File i) = 0"
| "height (Dir i cs) = Suc (foldr (\<lambda>c m. max (height c) m) cs 0)"

text \<open>
  The store in state \<open>r\<close> presents the tree to the holder of \<open>this\<close>: every entry that
  is not a directory has a type other than \<open>dir\<close>, and a GET on the path of a directory
  entry answers with the entries below it and leaves the store as it is.
\<close>

fun presents :: "'w axios \<Rightarrow> storage \<Rightarrow> 'w \<Rightarrow> tree \<Rightarrow> bool" where
  "presents ax this r (File i) = (type i \<noteq> ''dir'')"
| "presents ax this r (Dir i cs) =
     (type i = ''dir''
      \<and> ax_get ax (apiUrl this @ ''/'' @ path i) (bearer this) r = (Inr (Array (map root_item cs)), r)
      \<and> (\<forall>c \<in> set cs. presents ax this r c))"

section \<open>The retrievals of one job\<close>

text \<open>
  The files of a job are retrieved one after the other, each in the state in which
  the retrievals before it left the store. \<open>first_failure\<close> follows the store through
  that run up to the first retrieval that fails: it gives the file, the error and the
  state of the store after it, or \<open>None\<close> when every retrieval succeeds.
\<close>

fun first_failure ::
  "'w axios \<Rightarrow> string \<Rightarrow> file_ref list \<Rightarrow> 'w \<Rightarrow> (file_ref \<times> error \<times> 'w) option" where
  "first_failure ax auth [] r = None"
| "first_failure ax auth (f # fs) r =
     (case ax_get_arraybuffer ax (fr_url f) auth r of
        (Inl e, r') \<Rightarrow> Some (f, e, r')
      | (Inr c, r') \<Rightarrow> first_failure ax auth fs r')"

section \<open>Example stores\<close>

text \<open>
  Concrete stores at which the theorems below are instantiated: a storage object, an
  empty world around a given store, a store that keeps one blob per URL, a store whose
  first request fails without a response, and the repository of the scenario with
  \<open>docs/a.txt\<close> and \<open>docs/sub/b.txt\<close>.
\<close>

definition this0 :: storage where
  "this0 = \<lparr>repo = ''o/r'', token = ''t'', apiUrl = ''https://api.github.com/repos/o/r/contents''\<rparr>"

definition world0 :: "'w \<Rightarrow> 'w world" where
  "world0 r = \<lparr>remote = r, dirs = {}, disk = Map.empty, trace = []\<rparr>"

definition not_found :: error where
  "not_found = AxiosError (Some 404) ''Request failed with status code 404''"

definition mem_ax :: "(string \<times> string) list axios" where
  "mem_ax =
     \<lparr>ax_get = (\<lambda>url auth st.
        (case map_of st url of
           None \<Rightarrow> Inl not_found
         | Some c \<Rightarrow> Inr (Object (Some (''sha-'' @ c)) (Some c) (Some url)), st)),
      ax_get_arraybuffer = (\<lambda>url auth st. (Inl not_found, st)),
      ax_put = (\<lambda>url body auth st. (Inr ''ok'', (url, pb_content body) # st)),
      ax_delete = (\<lambda>url body auth st. (Inr ''ok'', filter (\<lambda>kv. fst kv \<noteq> url) st))\<rparr>"

definition flaky_ax :: "nat axios" where
  "flaky_ax =
     \<lparr>ax_get = (\<lambda>url auth n.
        (if n = 0 then Inl (AxiosError None ''socket hang up'')
         else Inr (Object (Some ''abc'') (Some ''aGk='') None), Suc n)),
      ax_get_arraybuffer = (\<lambda>url auth n. (Inl (AxiosError None ''socket hang up''), Suc n)),
      ax_put = (\<lambda>url body auth n. (Inr ''ok'', Suc n)),
      ax_delete = (\<lambda>url body auth n. (Inr ''ok'', Suc n))\<rparr>"

definition docs_item :: item where
  "docs_item = \<lparr>name = ''docs'', path = ''docs'', type = ''dir'', sha = ''d0'', download_url = None\<rparr>"

definition a_txt :: item where
  "a_txt = \<lparr>name = ''a.txt'', path = ''docs/a.txt'', type = ''file'', sha = ''a1'',
            download_url = Some ''https://raw.example/docs/a.txt''\<rparr>"

definition sub_item :: item where
  "sub_item = \<lparr>name = ''sub'', path = ''docs/sub'', type = ''dir'', sha = ''d1'', download_url = None\<rparr>"

definition b_txt :: item where
  "b_txt = \<lparr>name = ''b.txt'', path = ''docs/sub/b.txt'', type = ''file'', sha = ''b1'',
            download_url = Some ''https://raw.example/docs/sub/b.txt''\<rparr>"

definition docs_ax :: "unit axios" where
  "docs_ax =
     \<lparr>ax_get = (\<lambda>url auth u.
        (if url = ''https://api.github.com/repos/o/r/contents/docs''
         then Inr (Array [a_txt, sub_item])
         else if url = ''https://api.github.com/repos/o/r/contents/docs/sub''
         then Inr (Array [b_txt])
         else Inl not_found, u)),
      ax_get_arraybuffer = (\<lambda>url auth u.
        (if url = Some ''https://raw.example/docs/a.txt'' then Inr ''hello''
         else if url = Some ''https://raw.example/docs/sub/b.txt'' then Inr ''world''
         else Inl not_found, u)),
      ax_put = (\<lambda>url body auth u. (Inr ''ok'', u)),
      ax_delete = (\<lambda>url body auth u. (Inr ''ok'', u))\<rparr>"

text \<open>
  A store with a quota on raw retrievals, its state the number still allowed: the
  folder \<open>flat\<close> holds \<open>c.txt\<close> and \<open>d.txt\<close>, and a retrieval beyond the quota is
  answered with status 429.
\<close>

definition c_txt :: item where
  "c_txt = \<lparr>name = ''c.txt'', path = ''flat/c.txt'', type = ''file'', sha = ''c1'',
            download_url = Some ''https://raw.example/flat/c.txt''\<rparr>"

definition d_txt :: item where
  "d_txt = \<lparr>name = ''d.txt'', path = ''flat/d.txt'', type = ''file'', sha = ''d2'',
            download_url = Some ''https://raw.example/flat/d.txt''\<rparr>"

definition too_many :: error where
  "too_many = AxiosError (Some 429) ''Request failed with status code 429''"

definition quota_ax :: "nat axios" where
  "quota_ax =
     \<lparr>ax_get = (\<lambda>url auth n.
        (if url = ''https://api.github.com/repos/o/r/contents/flat''
         then Inr (Array [c_txt, d_txt]) else Inl not_found, n)),
      ax_get_arraybuffer = (\<lambda>url auth n.
        (if n = 0 then Inl too_many else Inr ''bytes'', n - 1)),
      ax_put = (\<lambda>url body auth n. (Inr ''ok'', n)),
      ax_delete = (\<lambda>url body auth n. (Inr ''ok'', n))\<rparr>"

text \<open>A store whose metadata carries a \<open>sha\<close> and neither content nor retrieval URL.\<close>

definition bare_ax :: "unit axios" where
  "bare_ax =
     \<lparr>ax_get = (\<lambda>url auth u. (Inr (Object (Some ''f00'') None None), u)),
      ax_get_arraybuffer = (\<lambda>url auth u. (Inl not_found, u)),
      ax_put = (\<lambda>url body auth u. (Inr ''ok'', u)),
      ax_delete = (\<lambda>url body auth u. (Inr ''ok'', u))\<rparr>"

text \<open>A stand-in for \<open>path.join\<close> on plain, non-empty segments.\<close>

definition slash_join :: "string list \<Rightarrow> string" where
  "slash_join ps = foldr (\<lambda>p acc. if acc = [] then p else p @ ''/'' @ acc) ps []"

section \<open>upload\<close>

lemma constructor_this0: "constructor (Some ''o/r'') (Some ''t'') = Inr this0"
  by (simp add: constructor_def this0_def truthy_def or_default_def)

lemma existing_sha_found:
  "ax_get ax url (bearer this) (remote w) = (Inr d, r1) \<Longrightarrow>
   existing_sha ax this url w =
     (Inr (data_sha d), w\<lparr>remote := r1, trace := trace w @ [Get url (bearer this)]\<rparr>)"
  by (simp add: existing_sha_def axios_get_def)

lemma existing_sha_failed:
  "ax_get ax url (bearer this) (remote w) = (Inl e, r1) \<Longrightarrow>
   existing_sha ax this url w =
     ((case response_status e of
         Some st \<Rightarrow> if st \<noteq> 404 then Inl e else Inr None
       | None \<Rightarrow> Inr None),
      w\<lparr>remote := r1, trace := trace w @ [Get url (bearer this)]\<rparr>)"
  by (simp add: existing_sha_def axios_get_def split: option.splits)

lemma upload_unfold:
  "f \<noteq> [] \<Longrightarrow>
   upload ax this (Some f) (Some fp) (Some fn) ow w =
     (case existing_sha ax this (apiUrl this @ ''/'' @ fp @ ''/'' @ fn) w of
        (Inl e, w1) \<Rightarrow> (Inl e, w1)
      | (Inr s, w1) \<Rightarrow>
          if truthy s \<and> \<not> or_default True ow
          then (Inr \<lparr>ur_message = ''File already exists!'', ur_data = None\<rparr>, w1)
          else (case axios_put ax (apiUrl this @ ''/'' @ fp @ ''/'' @ fn)
                       \<lparr>pb_message = (if truthy s then ''Update '' else ''Upload '') @ fn,
                        pb_content = fileContent_of f,
                        pb_sha = (if truthy s then s else None)\<rparr> (bearer this) w1 of
                  (Inl e, w2) \<Rightarrow> (Inl (Error (''Error uploading file to GitHub: '' @ message e)), w2)
                | (Inr r, w2) \<Rightarrow>
                    (Inr \<lparr>ur_message = (if truthy s then ''File updated successfully!''
                                         else ''File uploaded successfully!''),
                          ur_data = Some r\<rparr>, w2)))"
  unfolding upload_def Let_def
  by (simp add: truthy_def or_default_def split: prod.splits sum.splits)

text \<open>
  A failure of the existence check that carries a response with a status other than
  404 is rethrown as it is, and nothing is written.
\<close>

lemma upload_rethrows_http_failure:
  assumes "ax_get ax (apiUrl this @ ''/'' @ fp @ ''/'' @ fn) (bearer this) (remote w)
             = (Inl (AxiosError (Some st) m), r1)"
    and "st \<noteq> 404" and "f \<noteq> []"
  shows "upload ax this (Some f) (Some fp) (Some fn) ow w =
           (Inl (AxiosError (Some st) m),
            w\<lparr>remote := r1,
              trace := trace w @ [Get (apiUrl this @ ''/'' @ fp @ ''/'' @ fn) (bearer this)]\<rparr>)"
  using assms by (simp add: upload_unfold existing_sha_failed)

text \<open>
  Claim C9. The defaults of \<open>upload\<close>: an omitted \<open>filepath\<close> is the root path \<open>''\<close>, an
  omitted \<open>filename\<close> is \<open>uploaded_file.txt\<close>, an omitted \<open>overwrite\<close> is \<open>true\<close>. A
  missing or empty \<open>file\<close> makes \<open>upload\<close> throw \<open>File is required\<close> and the world is
  the one before the call: no request was issued.
\<close>

theorem upload_defaults_and_required_file:
  "upload ax this file None fn ow w = upload ax this file (Some []) fn ow w
   \<and> upload ax this file fp None ow w = upload ax this file fp (Some ''uploaded_file.txt'') ow w
   \<and> upload ax this file fp fn None w = upload ax this file fp fn (Some True) w
   \<and> upload ax this None fp fn ow w = (Inl (Error ''File is required''), w)
   \<and> upload ax this (Some []) fp fn ow w = (Inl (Error ''File is required''), w)"
  by (simp add: upload_def or_default_def truthy_def)

text \<open>
  Claim C4. When the existence check finds the file (the GET on \<open>path/name\<close> answers
  with metadata whose \<open>sha\<close> is a non-empty string) and \<open>overwrite\<close> is \<open>false\<close>, an
  upload of any content, for any path and name, returns \<open>File already exists!\<close> with no
  data. The content is not empty, which is the precondition of \<open>upload\<close> (an empty one
  is refused before any request, claim C9). The only request of the call is that GET:
  no PUT is issued, and the store is in the state \<open>r1\<close> in which the GET left it.
\<close>

theorem upload_reject_skips:
  assumes "ax_get ax (apiUrl this @ ''/'' @ fp @ ''/'' @ fn) (bearer this) (remote w) = (Inr d, r1)"
    and "truthy (data_sha d)" and "f \<noteq> []"
  shows "upload ax this (Some f) (Some fp) (Some fn) (Some False) w =
           (Inr \<lparr>ur_message = ''File already exists!'', ur_data = None\<rparr>,
            w\<lparr>remote := r1,
              trace := trace w @ [Get (apiUrl this @ ''/'' @ fp @ ''/'' @ fn) (bearer this)]\<rparr>)"
  using assms by (simp add: upload_unfold existing_sha_found or_default_def)

text \<open>
  At a store that holds \<open>docs/a.txt\<close>, the upload of other content with
  \<open>overwrite = false\<close> leaves the blob and its revision as they were.
\<close>

theorem upload_reject_skips_witness:
  "upload mem_ax this0 (Some ''bmV3'') (Some ''docs'') (Some ''a.txt'') (Some False)
     (world0 [(''https://api.github.com/repos/o/r/contents/docs/a.txt'', ''aGk='')]) =
   (Inr \<lparr>ur_message = ''File already exists!'', ur_data = None\<rparr>,
    \<lparr>remote = [(''https://api.github.com/repos/o/r/contents/docs/a.txt'', ''aGk='')],
     dirs = {}, disk = Map.empty,
     trace = [Get ''https://api.github.com/repos/o/r/contents/docs/a.txt'' ''Bearer t'']\<rparr>)"
  using upload_reject_skips [of mem_ax this0 "''docs''" "''a.txt''"
      "world0 [(''https://api.github.com/repos/o/r/contents/docs/a.txt'', ''aGk='')]"
      "Object (Some ''sha-aGk='') (Some ''aGk='')
         (Some ''https://api.github.com/repos/o/r/contents/docs/a.txt'')"
      "[(''https://api.github.com/repos/o/r/contents/docs/a.txt'', ''aGk='')]" "''bmV3''"]
  by (simp add: mem_ax_def this0_def world0_def bearer_def truthy_def)

text \<open>
  Claim C2. The existence check of \<open>upload\<close> meets a transport failure: the first
  request dies without a response (\<open>socket hang up\<close>). The catch of lines 55 to 59
  rethrows only when \<open>error.response\<close> is there, so this failure is dropped, \<open>sha\<close>
  stays \<open>null\<close>, and the upload goes on as a creation: it issues a PUT without \<open>sha\<close>
  and reports \<open>File uploaded successfully!\<close>.
\<close>

theorem upload_swallows_transport_failure:
  "upload flaky_ax this0 (Some ''aGk='') (Some ''docs'') (Some ''a.txt'') (Some True) (world0 0) =
   (Inr \<lparr>ur_message = ''File uploaded successfully!'', ur_data = Some ''ok''\<rparr>,
    \<lparr>remote = 2, dirs = {}, disk = Map.empty,
     trace = [Get ''https://api.github.com/repos/o/r/contents/docs/a.txt'' ''Bearer t'',
              Put ''https://api.github.com/repos/o/r/contents/docs/a.txt''
                \<lparr>pb_message = ''Upload a.txt'', pb_content = ''aGk='', pb_sha = None\<rparr>
                ''Bearer t'']\<rparr>)"
  by (simp add: upload_def existing_sha_def axios_get_def axios_put_def flaky_ax_def this0_def
      world0_def or_default_def truthy_def bearer_def fileContent_of_def startsWith_def Let_def)

subsection \<open>The data URI prefix\<close>

lemma indexOf_from_first:
  "\<forall>j<length pre. \<not> startsWith (drop j (pre @ pat @ rest)) pat \<Longrightarrow>
   indexOf_from (pre @ pat @ rest) pat k = int (k + length pre)"
proof (induction pre arbitrary: k)
  case Nil
  have "startsWith (pat @ rest) pat" by (simp add: startsWith_def)
  then show ?case by (cases "pat @ rest") auto
next
  case (Cons c pre)
  have "0 < length (c # pre)" by simp
  with Cons.prems have "\<not> startsWith (drop 0 ((c # pre) @ pat @ rest)) pat" by blast
  then have first: "\<not> startsWith (c # pre @ pat @ rest) pat" by simp
  have "\<forall>j<length pre. \<not> startsWith (drop j (pre @ pat @ rest)) pat"
  proof (intro allI impI)
    fix j assume "j < length pre"
    then have "Suc j < length (c # pre)" by simp
    with Cons.prems have "\<not> startsWith (drop (Suc j) ((c # pre) @ pat @ rest)) pat" by blast
    then show "\<not> startsWith (drop j (pre @ pat @ rest)) pat" by simp
  qed
  from Cons.IH [OF this, of "Suc k"] first show ?case by simp
qed

lemma fileContent_of_enveloped:
  assumes "startsWith file ''data:''" and "file = pre @ ''base64,'' @ p"
    and "\<forall>j<length pre. \<not> startsWith (drop j file) ''base64,''"
  shows "fileContent_of file = p"
proof -
  have "indexOf_from (pre @ ''base64,'' @ p) ''base64,'' 0 = int (0 + length pre)"
    by (rule indexOf_from_first) (rule assms(3) [unfolded assms(2)])
  then have "indexOf file ''base64,'' = int (length pre)"
    by (simp add: indexOf_def assms(2))
  moreover have "nat (int (length pre) + 7) = length pre + 7" by simp
  ultimately have "slice file (indexOf file ''base64,'' + int (length ''base64,'')) = p"
    by (simp add: slice_def assms(2))
  with assms(1) show ?thesis by (simp add: fileContent_of_def)
qed

lemma fileContent_of_bare: "\<not> startsWith p ''data:'' \<Longrightarrow> fileContent_of p = p"
  by (simp add: fileContent_of_def)

lemma upload_content:
  "f \<noteq> [] \<Longrightarrow> g \<noteq> [] \<Longrightarrow> fileContent_of f = fileContent_of g \<Longrightarrow>
   upload ax this (Some f) fp fn ow w = upload ax this (Some g) fp fn ow w"
  by (simp add: upload_def truthy_def or_default_def)

text \<open>The content of every PUT that \<open>upload\<close> issues is the payload after lines 39 to 43.\<close>

lemma upload_unfold_gen:
  "f \<noteq> [] \<Longrightarrow>
   upload ax this (Some f) fp fn ow w =
     (case existing_sha ax this
             (apiUrl this @ ''/'' @ or_default [] fp @ ''/'' @ or_default ''uploaded_file.txt'' fn) w of
        (Inl e, w1) \<Rightarrow> (Inl e, w1)
      | (Inr s, w1) \<Rightarrow>
          if truthy s \<and> \<not> or_default True ow
          then (Inr \<lparr>ur_message = ''File already exists!'', ur_data = None\<rparr>, w1)
          else (case axios_put ax
                       (apiUrl this @ ''/'' @ or_default [] fp @ ''/''
                          @ or_default ''uploaded_file.txt'' fn)
                       \<lparr>pb_message = (if truthy s then ''Update '' else ''Upload '')
                                       @ or_default ''uploaded_file.txt'' fn,
                        pb_content = fileContent_of f,
                        pb_sha = (if truthy s then s else None)\<rparr> (bearer this) w1 of
                  (Inl e, w2) \<Rightarrow> (Inl (Error (''Error uploading file to GitHub: '' @ message e)), w2)
                | (Inr r, w2) \<Rightarrow>
                    (Inr \<lparr>ur_message = (if truthy s then ''File updated successfully!''
                                         else ''File uploaded successfully!''),
                          ur_data = Some r\<rparr>, w2)))"
  unfolding upload_def Let_def
  by (simp add: truthy_def or_default_def split: prod.splits sum.splits)

lemma existing_sha_trace:
  "existing_sha ax this url w = (r, w1) \<Longrightarrow> trace w1 = trace w @ [Get url (bearer this)]"
  by (auto simp: existing_sha_def axios_get_def split: prod.splits sum.splits option.splits if_splits)

lemma axios_put_trace:
  "trace (snd (axios_put ax url b auth w)) = trace w @ [Put url b auth]"
  by (simp add: axios_put_def split: prod.splits)

lemma snd_put_case:
  "snd (case axios_put ax url b auth w of (Inl e, w2) \<Rightarrow> (A e, w2) | (Inr r, w2) \<Rightarrow> (B r, w2))
     = snd (axios_put ax url b auth w)"
  by (simp split: prod.splits sum.splits)

lemma upload_puts_fileContent:
  "\<exists>cs. trace (snd (upload ax this (Some f) fp fn ow w)) = trace w @ cs
        \<and> (\<forall>u b a. Put u b a \<in> set cs \<longrightarrow> pb_content b = fileContent_of f)"
proof (cases "f = []")
  case True
  then show ?thesis by (simp add: upload_def truthy_def)
next
  case False
  define url where
    "url = apiUrl this @ ''/'' @ or_default [] fp @ ''/'' @ or_default ''uploaded_file.txt'' fn"
  obtain rs w1 where g: "existing_sha ax this url w = (rs, w1)"
    by (cases "existing_sha ax this url w")
  note t1 = existing_sha_trace [OF g]
  show ?thesis
    unfolding upload_unfold_gen [OF False] url_def [symmetric] g
    using t1 by (cases rs) (simp_all add: snd_put_case axios_put_trace)
qed

text \<open>
  Claim C5, as stated, fails in two ways, each on payloads that are not empty. A
  payload that carries the marker \<open>base64,\<close> behind a prefix other than \<open>data:\<close> (here the
  same scheme in capitals) is not stripped: the PUT carries the whole payload. And
  when what follows the marker begins with \<open>data:\<close> again, the enveloped payload stores
  that remainder, while the remainder uploaded directly is stripped once more and
  stores other bytes.
\<close>

theorem upload_envelope_counterexample:
  "upload mem_ax this0 (Some ''DATA:;base64,eA=='') (Some ''docs'') (Some ''a.txt'') (Some True)
     (world0 []) =
     (Inr \<lparr>ur_message = ''File uploaded successfully!'', ur_data = Some ''ok''\<rparr>,
      \<lparr>remote = [(''https://api.github.com/repos/o/r/contents/docs/a.txt'', ''DATA:;base64,eA=='')],
       dirs = {}, disk = Map.empty,
       trace = [Get ''https://api.github.com/repos/o/r/contents/docs/a.txt'' ''Bearer t'',
                Put ''https://api.github.com/repos/o/r/contents/docs/a.txt''
                  \<lparr>pb_message = ''Upload a.txt'', pb_content = ''DATA:;base64,eA=='',
                   pb_sha = None\<rparr>
                  ''Bearer t'']\<rparr>)
   \<and> remote (snd (upload mem_ax this0 (Some ''data:;base64,data:;base64,eA=='') (Some ''docs'')
        (Some ''a.txt'') (Some True) (world0 [])))
       = [(''https://api.github.com/repos/o/r/contents/docs/a.txt'', ''data:;base64,eA=='')]
   \<and> remote (snd (upload mem_ax this0 (Some ''data:;base64,eA=='') (Some ''docs'')
        (Some ''a.txt'') (Some True) (world0 [])))
       = [(''https://api.github.com/repos/o/r/contents/docs/a.txt'', ''eA=='')]"
  by (simp add: upload_def existing_sha_def axios_get_def axios_put_def mem_ax_def this0_def
      world0_def or_default_def truthy_def bearer_def fileContent_of_def startsWith_def
      not_found_def indexOf_def slice_def Let_def)

text \<open>
  Claim C5, amended. Let the payload begin with \<open>data:\<close> and let \<open>p\<close> be what follows
  its first \<open>base64,\<close>. Then the payload is cut down to \<open>p\<close>, and every PUT that the
  upload issues carries \<open>p\<close> as its content, whatever the store answers. When \<open>p\<close> is
  not empty, which is the precondition of \<open>upload\<close>, and does not itself begin with
  \<open>data:\<close>, uploading the payload and uploading \<open>p\<close> directly are the same call: the
  same requests with the same content, the same result, the same store afterwards.
\<close>

theorem upload_enveloped_same_as_stripped:
  assumes "startsWith file ''data:''" and "file = pre @ ''base64,'' @ p"
    and "\<forall>j<length pre. \<not> startsWith (drop j file) ''base64,''"
  shows "fileContent_of file = p
         \<and> (\<exists>cs. trace (snd (upload ax this (Some file) fp fn ow w)) = trace w @ cs
                \<and> (\<forall>u b a. Put u b a \<in> set cs \<longrightarrow> pb_content b = p))
         \<and> (p \<noteq> [] \<and> \<not> startsWith p ''data:'' \<longrightarrow>
               upload ax this (Some file) fp fn ow w = upload ax this (Some p) fp fn ow w)"
proof -
  have c: "fileContent_of file = p" using assms by (rule fileContent_of_enveloped)
  have n: "file \<noteq> []" using assms(2) by simp
  have "upload ax this (Some file) fp fn ow w = upload ax this (Some p) fp fn ow w"
    if "p \<noteq> []" and "\<not> startsWith p ''data:''"
  proof (rule upload_content)
    show "fileContent_of file = fileContent_of p" using c that(2) by (simp add: fileContent_of_bare)
  qed (use n that in auto)
  with c upload_puts_fileContent [where f = "file" and ax = ax and this = this and fp = fp
      and fn = fn and ow = ow and w = w]
  show ?thesis by simp
qed

text \<open>
  The payload \<open>data:;base64,aGk=\<close> on an empty store: the PUT carries \<open>aGk=\<close>, and so
  does the PUT of the direct upload of \<open>aGk=\<close>.
\<close>

theorem upload_enveloped_same_as_stripped_witness:
  "fileContent_of ''data:;base64,aGk='' = ''aGk=''
   \<and> trace (snd (upload mem_ax this0 (Some ''data:;base64,aGk='') (Some ''docs'') (Some ''a.txt'')
        (Some True) (world0 [])))
       = [Get ''https://api.github.com/repos/o/r/contents/docs/a.txt'' ''Bearer t'',
          Put ''https://api.github.com/repos/o/r/contents/docs/a.txt''
            \<lparr>pb_message = ''Upload a.txt'', pb_content = ''aGk='', pb_sha = None\<rparr> ''Bearer t'']
   \<and> upload mem_ax this0 (Some ''data:;base64,aGk='') (Some ''docs'') (Some ''a.txt'') (Some True)
       (world0 [])
     = upload mem_ax this0 (Some ''aGk='') (Some ''docs'') (Some ''a.txt'') (Some True) (world0 [])"
proof -
  have first: "\<forall>j<length ''data:;''. \<not> startsWith (drop j ''data:;base64,aGk='') ''base64,''"
  proof (intro allI impI)
    fix j :: nat assume "j < length ''data:;''"
    then have "j \<in> {0, 1, 2, 3, 4, 5}" by auto
    then show "\<not> startsWith (drop j ''data:;base64,aGk='') ''base64,''"
      by (auto simp: startsWith_def)
  qed
  have h: "startsWith ''data:;base64,aGk='' ''data:''"
    "''data:;base64,aGk='' = ''data:;'' @ ''base64,'' @ ''aGk=''"
    by (simp_all add: startsWith_def)
  have p: "''aGk='' \<noteq> [] \<and> \<not> startsWith ''aGk='' ''data:''" by (simp add: startsWith_def)
  have t: "trace (snd (upload mem_ax this0 (Some ''aGk='') (Some ''docs'') (Some ''a.txt'')
        (Some True) (world0 [])))
       = [Get ''https://api.github.com/repos/o/r/contents/docs/a.txt'' ''Bearer t'',
          Put ''https://api.github.com/repos/o/r/contents/docs/a.txt''
            \<lparr>pb_message = ''Upload a.txt'', pb_content = ''aGk='', pb_sha = None\<rparr> ''Bearer t'']"
    by (simp add: upload_def existing_sha_def axios_get_def axios_put_def mem_ax_def this0_def
        world0_def or_default_def truthy_def bearer_def fileContent_of_def startsWith_def
        not_found_def Let_def)
  from upload_enveloped_same_as_stripped [OF h first, of mem_ax this0 "Some ''docs''"
      "Some ''a.txt''" "Some True" "world0 []"] p
  have "fileContent_of ''data:;base64,aGk='' = ''aGk=''"
    and "upload mem_ax this0 (Some ''data:;base64,aGk='') (Some ''docs'') (Some ''a.txt'')
           (Some True) (world0 [])
         = upload mem_ax this0 (Some ''aGk='') (Some ''docs'') (Some ''a.txt'') (Some True)
             (world0 [])"
    by blast+
  with t show ?thesis by simp
qed

section \<open>deleteFile and download\<close>

text \<open>
  Claim C6, as stated, fails in two ways. At the root path: \<open>''\<close> is the path of the
  repository root (the default \<open>filepath\<close> of \<open>upload\<close>), and the store answers 404 for
  \<open>never.txt\<close> there, yet \<open>deleteFile\<close> is stopped by the check of line 320: it issues
  no request at all, and its failure is the missing-argument error, not one derived
  from the not-found answer. And at a path whose GET answers without a \<open>sha\<close>, here the
  directory \<open>docs/sub\<close> whose answer is a listing: the DELETE goes out with no revision
  and the call reports success.
\<close>

theorem deleteFile_counterexample:
  "fst (ax_get mem_ax (apiUrl this0 @ ''/'' @ [] @ ''/'' @ ''never.txt'') (bearer this0) []) = Inl not_found
   \<and> deleteFile mem_ax this0 (Some []) (Some ''never.txt'') (world0 []) =
       (Inl (Error ''Both filepath and filename are required!''), world0 [])
   \<and> deleteFile docs_ax this0 (Some ''docs'') (Some ''sub'') (world0 ()) =
       (Inr \<lparr>dr_message = ''File deleted successfully!'', dr_data = ''ok''\<rparr>,
        \<lparr>remote = (), dirs = {}, disk = Map.empty,
         trace = [Get ''https://api.github.com/repos/o/r/contents/docs/sub'' ''Bearer t'',
                  Delete ''https://api.github.com/repos/o/r/contents/docs/sub''
                    \<lparr>db_message = ''Delete sub'', db_sha = None, db_branch = ''main''\<rparr>
                    ''Bearer t'']\<rparr>)"
  by (simp add: deleteFile_def truthy_def or_default_def mem_ax_def docs_ax_def this0_def
      world0_def bearer_def axios_get_def axios_delete_def Let_def)

text \<open>
  Claim C6, amended. With an empty or missing path or name \<open>deleteFile\<close> throws
  \<open>Both filepath and filename are required!\<close> and the world is the one before the
  call. With a non-empty path and a non-empty name, the first request is the GET of
  the item. When it answers with a \<open>sha\<close>, the one request that follows is the DELETE
  on the same URL, whose body carries that \<open>sha\<close>, the message \<open>Delete name\<close> and the
  branch \<open>main\<close>. When it fails, not found included, no DELETE is issued and the call
  fails with \<open>Error deleting file: \<close> followed by the message of that failure: the
  failure of a path that was never created comes from the not-found answer, and a
  precondition conflict, which only a DELETE can meet, is out of reach. Nothing is
  said of an answer without a \<open>sha\<close>.
\<close>

theorem deleteFile_fetches_then_deletes:
  "(\<not> truthy fp' \<or> \<not> truthy fn' \<longrightarrow>
      deleteFile ax this fp' fn' w = (Inl (Error ''Both filepath and filename are required!''), w))
   \<and> (fp \<noteq> [] \<and> fn \<noteq> [] \<longrightarrow>
        (\<exists>res w' cs.
           deleteFile ax this (Some fp) (Some fn) w = (res, w')
           \<and> trace w' = trace w @ Get (apiUrl this @ ''/'' @ fp @ ''/'' @ fn) (bearer this) # cs
           \<and> (case fst (ax_get ax (apiUrl this @ ''/'' @ fp @ ''/'' @ fn) (bearer this) (remote w)) of
                 Inr d \<Rightarrow>
                   (\<forall>s. data_sha d = Some s \<longrightarrow>
                      cs = [Delete (apiUrl this @ ''/'' @ fp @ ''/'' @ fn)
                              \<lparr>db_message = ''Delete '' @ fn, db_sha = Some s, db_branch = ''main''\<rparr>
                              (bearer this)])
               | Inl e \<Rightarrow> cs = [] \<and> res = Inl (Error (''Error deleting file: '' @ message e)))))"
  by (auto simp: deleteFile_def truthy_def or_default_def axios_get_def axios_delete_def Let_def
      split: prod.splits sum.splits)

text \<open>
  A missing path, a path that was never created, and a file that exists: the DELETE
  carries the \<open>sha\<close> that the GET returned.
\<close>

theorem deleteFile_fetches_then_deletes_witness:
  "deleteFile mem_ax this0 None (Some ''a.txt'') (world0 []) =
     (Inl (Error ''Both filepath and filename are required!''), world0 [])
   \<and> deleteFile mem_ax this0 (Some ''docs'') (Some ''never.txt'') (world0 []) =
     (Inl (Error ''Error deleting file: Request failed with status code 404''),
      \<lparr>remote = [], dirs = {}, disk = Map.empty,
       trace = [Get ''https://api.github.com/repos/o/r/contents/docs/never.txt'' ''Bearer t'']\<rparr>)
   \<and> trace (snd (deleteFile mem_ax this0 (Some ''docs'') (Some ''a.txt'')
        (world0 [(''https://api.github.com/repos/o/r/contents/docs/a.txt'', ''aGk='')]))) =
       [Get ''https://api.github.com/repos/o/r/contents/docs/a.txt'' ''Bearer t'',
        Delete ''https://api.github.com/repos/o/r/contents/docs/a.txt''
          \<lparr>db_message = ''Delete a.txt'', db_sha = Some ''sha-aGk='', db_branch = ''main''\<rparr>
          ''Bearer t'']"
  using deleteFile_fetches_then_deletes [of None "Some ''a.txt''" mem_ax this0 "world0 []"
      "''docs''" "''never.txt''"]
    deleteFile_fetches_then_deletes [of None None mem_ax this0
      "world0 [(''https://api.github.com/repos/o/r/contents/docs/a.txt'', ''aGk='')]"
      "''docs''" "''a.txt''"]
  by (simp add: mem_ax_def this0_def world0_def bearer_def not_found_def deleteFile_def
      truthy_def or_default_def axios_get_def axios_delete_def Let_def)

text \<open>
  Claim C7, as stated, fails in two ways. At the root path: the store holds
  \<open>README.md\<close> there with its encoded content, and \<open>download\<close> is stopped by the check
  of line 190 before any request, so the content that is present is not returned. And
  at an empty file: its encoded content is present and is the empty string, which
  line 205 takes for absent, so the retrieval URL is returned.
\<close>

theorem download_counterexample:
  "fst (ax_get mem_ax (apiUrl this0 @ ''/'' @ [] @ ''/'' @ ''README.md'') (bearer this0)
          [(''https://api.github.com/repos/o/r/contents//README.md'', ''aGk='')])
     = Inr (Object (Some ''sha-aGk='') (Some ''aGk='')
              (Some ''https://api.github.com/repos/o/r/contents//README.md''))
   \<and> download mem_ax this0 (Some []) (Some ''README.md'')
       (world0 [(''https://api.github.com/repos/o/r/contents//README.md'', ''aGk='')]) =
       (Inl (Error ''Both filepath and filename are required!''),
        world0 [(''https://api.github.com/repos/o/r/contents//README.md'', ''aGk='')])
   \<and> fst (ax_get mem_ax (apiUrl this0 @ ''/'' @ ''docs'' @ ''/'' @ ''e.txt'') (bearer this0)
          [(''https://api.github.com/repos/o/r/contents/docs/e.txt'', [])])
     = Inr (Object (Some ''sha-'') (Some [])
              (Some ''https://api.github.com/repos/o/r/contents/docs/e.txt''))
   \<and> fst (download mem_ax this0 (Some ''docs'') (Some ''e.txt'')
          (world0 [(''https://api.github.com/repos/o/r/contents/docs/e.txt'', [])]))
     = Inr (Url ''https://api.github.com/repos/o/r/contents/docs/e.txt'')"
  by (simp add: download_def truthy_def or_default_def mem_ax_def this0_def world0_def
      bearer_def axios_get_def Let_def)

text \<open>
  Claim C7, amended. With an empty or missing path or name \<open>download\<close> throws
  \<open>Both filepath and filename are required!\<close> and the world is the one before the
  call. With a non-empty path and a non-empty name whose metadata request answers
  with \<open>d\<close>: an encoded content that is a non-empty string is returned; a URL is
  returned only when there is no such content, and then it is the retrieval URL of
  \<open>d\<close>; a non-empty retrieval URL is returned whenever there is no such content; when
  neither is there the call fails with \<open>File content or download URL not found\<close>, for
  this file alone.
\<close>

theorem download_content_then_url:
  "(\<not> truthy fp' \<or> \<not> truthy fn' \<longrightarrow>
      download ax this fp' fn' w = (Inl (Error ''Both filepath and filename are required!''), w))
   \<and> (fp \<noteq> [] \<and> fn \<noteq> []
        \<and> ax_get ax (apiUrl this @ ''/'' @ fp @ ''/'' @ fn) (bearer this) (remote w) = (Inr d, r1) \<longrightarrow>
          (\<forall>c. data_content d = Some c \<and> c \<noteq> [] \<longrightarrow>
             fst (download ax this (Some fp) (Some fn) w) = Inr (Data c))
        \<and> (\<forall>u. fst (download ax this (Some fp) (Some fn) w) = Inr (Url u) \<longrightarrow>
             \<not> truthy (data_content d) \<and> data_download_url d = Some u)
        \<and> (\<forall>u. \<not> truthy (data_content d) \<and> data_download_url d = Some u \<and> u \<noteq> [] \<longrightarrow>
             fst (download ax this (Some fp) (Some fn) w) = Inr (Url u))
        \<and> (\<not> truthy (data_content d) \<and> \<not> truthy (data_download_url d) \<longrightarrow>
             fst (download ax this (Some fp) (Some fn) w)
               = Inl (Error ''Error downloading file: File content or download URL not found'')))"
  by (auto simp: download_def truthy_def or_default_def axios_get_def Let_def
      split: prod.splits sum.splits option.splits)

text \<open>
  A missing name, a file with content, and a file whose metadata has neither content
  nor URL.
\<close>

theorem download_content_then_url_witness:
  "download mem_ax this0 (Some ''docs'') None (world0 []) =
     (Inl (Error ''Both filepath and filename are required!''), world0 [])
   \<and> fst (download mem_ax this0 (Some ''docs'') (Some ''a.txt'')
          (world0 [(''https://api.github.com/repos/o/r/contents/docs/a.txt'', ''aGk='')]))
     = Inr (Data ''aGk='')
   \<and> fst (download bare_ax this0 (Some ''docs'') (Some ''big.bin'') (world0 ()))
     = Inl (Error ''Error downloading file: File content or download URL not found'')"
proof -
  have 1: "ax_get mem_ax (apiUrl this0 @ ''/'' @ ''docs'' @ ''/'' @ ''a.txt'') (bearer this0)
      (remote (world0 [(''https://api.github.com/repos/o/r/contents/docs/a.txt'', ''aGk='')]))
    = (Inr (Object (Some ''sha-aGk='') (Some ''aGk='')
          (Some ''https://api.github.com/repos/o/r/contents/docs/a.txt'')),
       [(''https://api.github.com/repos/o/r/contents/docs/a.txt'', ''aGk='')])"
    by (simp add: mem_ax_def this0_def world0_def)
  have 2: "ax_get bare_ax (apiUrl this0 @ ''/'' @ ''docs'' @ ''/'' @ ''big.bin'') (bearer this0)
      (remote (world0 ())) = (Inr (Object (Some ''f00'') None None), ())"
    by (simp add: bare_ax_def)
  have n: "''docs'' \<noteq> []" "''a.txt'' \<noteq> []" "''big.bin'' \<noteq> []" by simp_all
  have g: "\<not> truthy (Some ''docs'') \<or> \<not> truthy None" by (simp add: truthy_def)
  from download_content_then_url [of "Some ''docs''" None mem_ax this0 "world0 []"
      "''docs''" "''a.txt''"] g
  have a: "download mem_ax this0 (Some ''docs'') None (world0 []) =
     (Inl (Error ''Both filepath and filename are required!''), world0 [])" by blast
  from download_content_then_url [of None None mem_ax this0 _ "''docs''" "''a.txt''"] n 1
  have b: "fst (download mem_ax this0 (Some ''docs'') (Some ''a.txt'')
          (world0 [(''https://api.github.com/repos/o/r/contents/docs/a.txt'', ''aGk='')]))
     = Inr (Data ''aGk='')" by simp
  from download_content_then_url [of None None bare_ax this0 _ "''docs''" "''big.bin''"] n 2
  have c: "fst (download bare_ax this0 (Some ''docs'') (Some ''big.bin'') (world0 ()))
     = Inl (Error ''Error downloading file: File content or download URL not found'')"
    by (simp add: truthy_def)
  from a b c show ?thesis by simp
qed

section \<open>listAllFiles\<close>

lemma height_child: "c \<in> set cs \<Longrightarrow> height c \<le> foldr (\<lambda>c m. max (height c) m) cs 0"
  by (induction cs) auto

lemma axios_get_remote:
  "ax_get ax url auth (remote w) = (r, remote w) \<Longrightarrow>
   axios_get ax url auth w = (r, w\<lparr>trace := trace w @ [Get url auth]\<rparr>)"
  by (simp add: axios_get_def)

text \<open>
  The loop over the entries of one listing, given the walk of every directory among
  them: the files are appended to the accumulator in the order of the listing.
\<close>

lemma walk_items:
  assumes IH: "\<And>c n acc w. c \<in> set cs \<Longrightarrow> type (root_item c) = ''dir'' \<Longrightarrow> height c \<le> n \<Longrightarrow>
       remote w = r \<Longrightarrow>
       \<exists>w'. getFilesInDirectory n ax (Some this) (path (root_item c)) acc w
               = Some (Inr (acc @ map descriptor_of (leaves c)), w') \<and> remote w' = r"
    and pres: "\<forall>c \<in> set cs. presents ax this r c"
    and h: "\<forall>c \<in> set cs. height c \<le> n"
  shows "set xs \<subseteq> set cs \<Longrightarrow> remote w = r \<Longrightarrow>
     \<exists>w'. getFilesInDirectory_items n ax (Some this) (map root_item xs) acc w
             = Some (Inr (acc @ map descriptor_of (concat (map leaves xs))), w') \<and> remote w' = r"
proof (induction xs arbitrary: acc w)
  case Nil
  then show ?case by simp
next
  case (Cons x xs)
  then have x: "x \<in> set cs" and xs: "set xs \<subseteq> set cs" by auto
  show ?case
  proof (cases x)
    case (File i)
    with pres x have "type i \<noteq> ''dir''" by fastforce
    moreover from Cons.IH [OF xs Cons.prems(2), of "acc @ [descriptor_of i]"]
    obtain w' where
      "getFilesInDirectory_items n ax (Some this) (map root_item xs) (acc @ [descriptor_of i]) w
         = Some (Inr ((acc @ [descriptor_of i]) @ map descriptor_of (concat (map leaves xs))), w')"
      and "remote w' = r" by blast
    ultimately show ?thesis using File by simp
  next
    case (Dir i ds)
    with pres x have t: "type i = ''dir''" by fastforce
    from h x have "height x \<le> n" by blast
    from IH [OF x _ this Cons.prems(2), of acc] t Dir
    obtain w1 where 1: "getFilesInDirectory n ax (Some this) (path i) acc w
        = Some (Inr (acc @ map descriptor_of (leaves x)), w1)" and r1: "remote w1 = r" by auto
    from Cons.IH [OF xs r1, of "acc @ map descriptor_of (leaves x)"]
    obtain w' where
      "getFilesInDirectory_items n ax (Some this) (map root_item xs)
         (acc @ map descriptor_of (leaves x)) w1
         = Some (Inr ((acc @ map descriptor_of (leaves x))
                        @ map descriptor_of (concat (map leaves xs))), w')"
      and "remote w' = r" by blast
    then show ?thesis using Dir t 1 by simp
  qed
qed

lemma walk_tree:
  fixes w :: "'w world"
  shows "presents ax this r t \<Longrightarrow> type (root_item t) = ''dir'' \<Longrightarrow> height t \<le> n \<Longrightarrow>
   remote w = r \<Longrightarrow>
   \<exists>w'. getFilesInDirectory n ax (Some this) (path (root_item t)) acc w
           = Some (Inr (acc @ map descriptor_of (leaves t)), w') \<and> remote w' = r"
proof (induction t arbitrary: n acc w)
  case (File i)
  then show ?case by simp
next
  case (Dir i cs)
  from Dir.prems(3) obtain m where n: "n = Suc m" by (cases n) auto
  with Dir.prems(3) have h: "\<forall>c \<in> set cs. height c \<le> m"
    using height_child by fastforce
  from Dir.prems(1) have pres: "\<forall>c \<in> set cs. presents ax this r c"
    and get: "ax_get ax (apiUrl this @ ''/'' @ path i) (bearer this) r
                = (Inr (Array (map root_item cs)), r)"
    by simp_all
  let ?w1 = "w\<lparr>trace := trace w @ [Get (apiUrl this @ ''/'' @ path i) (bearer this)]\<rparr>"
  from get Dir.prems(4) have g: "axios_get ax (apiUrl this @ ''/'' @ path i) (bearer this) w
      = (Inr (Array (map root_item cs)), ?w1)"
    by (simp add: axios_get_remote)
  have "remote ?w1 = r" using Dir.prems(4) by simp
  have "\<exists>w'. getFilesInDirectory_items m ax (Some this) (map root_item cs) acc ?w1
      = Some (Inr (acc @ map descriptor_of (concat (map leaves cs))), w') \<and> remote w' = r"
  proof (rule walk_items [where cs = cs and r = r])
    fix c n acc and w :: "'w world"
    assume "c \<in> set cs" "type (root_item c) = ''dir''" "height c \<le> n" "remote w = r"
    with pres show "\<exists>w'. getFilesInDirectory n ax (Some this) (path (root_item c)) acc w
             = Some (Inr (acc @ map descriptor_of (leaves c)), w') \<and> remote w' = r"
      by (intro Dir.IH) auto
  qed (use pres h \<open>remote ?w1 = r\<close> in auto)
  then obtain w' where
    "getFilesInDirectory_items m ax (Some this) (map root_item cs) acc ?w1
       = Some (Inr (acc @ map descriptor_of (concat (map leaves cs))), w')" and "remote w' = r"
    by blast
  then show ?case using n g by simp
qed

lemma leaves_not_dir: "presents ax this r t \<Longrightarrow> \<forall>i \<in> set (leaves t). type i \<noteq> ''dir''"
  by (induction t) auto

lemma distinct_descriptors: "distinct (map path xs) \<Longrightarrow> distinct (map descriptor_of xs)"
  by (induction xs) (auto simp: descriptor_of_def)

text \<open>
  Claim C3. Let the store present a tree below the directory \<open>i\<close>, of any height, and
  let the fuel cover that height. Then \<open>listAllFiles\<close> on the path of \<open>i\<close> returns, and
  its \<open>files\<close> are the descriptors of the leaves of the tree, each once, in depth-first
  order with the siblings in the order of their listing. None of them is a directory,
  and they are pairwise distinct when the paths of the leaves are. The store is left
  as it was.
\<close>

theorem listAllFiles_returns_leaves:
  fixes w :: "'w world"
  assumes "presents ax this (remote w) (Dir i cs)" and "height (Dir i cs) \<le> fuel"
  shows "\<exists>files w'.
           listAllFiles fuel ax this (Some (path i)) w
             = Some (Inr \<lparr>lr_message = ''Files retrieved successfully!'', lr_files = files\<rparr>, w')
           \<and> files = map descriptor_of (leaves (Dir i cs))
           \<and> (\<forall>d \<in> set files. d_type d \<noteq> ''dir'')
           \<and> (distinct (map path (leaves (Dir i cs))) \<longrightarrow> distinct files)
           \<and> remote w' = remote w"
proof -
  from assms(1) have "type (root_item (Dir i cs)) = ''dir''" by simp
  from walk_tree [OF assms(1) this assms(2) refl, of "[]"]
  obtain w' where "getFilesInDirectory fuel ax (Some this) (path i) [] w
      = Some (Inr (map descriptor_of (leaves (Dir i cs))), w')" and "remote w' = remote w"
    by auto
  moreover from leaves_not_dir [OF assms(1)]
  have "\<forall>d \<in> set (map descriptor_of (leaves (Dir i cs))). d_type d \<noteq> ''dir''"
    by (simp add: descriptor_of_def)
  ultimately show ?thesis
    by (simp add: listAllFiles_def or_default_def distinct_descriptors)
qed

text \<open>The scenario: \<open>docs\<close> holds \<open>a.txt\<close> and \<open>sub/b.txt\<close>; the directory \<open>sub\<close> is not listed.\<close>

theorem listAllFiles_returns_leaves_witness:
  "presents docs_ax this0 (remote (world0 ())) (Dir docs_item [File a_txt, Dir sub_item [File b_txt]])
   \<and> height (Dir docs_item [File a_txt, Dir sub_item [File b_txt]]) \<le> 2
   \<and> (\<exists>w'. listAllFiles 2 docs_ax this0 (Some ''docs'') (world0 ())
          = Some (Inr \<lparr>lr_message = ''Files retrieved successfully!'',
                       lr_files = [descriptor_of a_txt, descriptor_of b_txt]\<rparr>, w'))"
proof -
  have p: "presents docs_ax this0 (remote (world0 ()))
      (Dir docs_item [File a_txt, Dir sub_item [File b_txt]])"
    by (simp add: docs_ax_def this0_def docs_item_def a_txt_def sub_item_def b_txt_def bearer_def)
  have h: "height (Dir docs_item [File a_txt, Dir sub_item [File b_txt]]) \<le> 2" by simp
  from listAllFiles_returns_leaves [OF p h] p h show ?thesis by (auto simp: docs_item_def)
qed

section \<open>listFilesInDirectory and downloadAll\<close>

text \<open>
  Claim C1. The folder \<open>docs\<close> of the scenario holds \<open>a.txt\<close> and the directory \<open>sub\<close>
  with \<open>b.txt\<close>. The walk of \<open>listFilesInDirectory\<close> lists \<open>docs\<close>, meets \<open>sub\<close> and
  calls itself with no receiver; reading \<open>this.apiUrl\<close> then throws. \<open>downloadAll\<close>
  fails with that error after the one listing request: nothing is retrieved, no
  stream is opened, there is no archive. This holds for any fuel that covers the two
  levels.
\<close>

theorem downloadAll_nested_folder_throws:
  "downloadAll (Suc (Suc n)) docs_ax pj this0 (Some ''docs'') sp (world0 ()) =
     Some (Inl (Error
             ''Error downloading files: Cannot read properties of undefined (reading 'apiUrl')''),
           \<lparr>remote = (), dirs = {}, disk = Map.empty,
            trace = [Get ''https://api.github.com/repos/o/r/contents/docs'' ''Bearer t'']\<rparr>)"
  by (simp add: downloadAll_def listFilesInDirectory_def or_default_def axios_get_def docs_ax_def
      this0_def world0_def a_txt_def sub_item_def bearer_def undefined_apiUrl_def)

text \<open>
  The same happens in every folder that has a subdirectory among its entries: the loop
  over a listing with an entry of type \<open>dir\<close> throws, whatever the store answers.
\<close>

lemma getFiles_items_dir_throws:
  fixes w :: "'w world"
  shows "\<exists>it \<in> set items. type it = ''dir'' \<Longrightarrow>
   getFiles_items (Suc n) ax items files w = Some (Inl undefined_apiUrl, w)"
  by (induction items arbitrary: files) auto

lemma axios_get_frame:
  "axios_get ax url auth w = (res, w') \<Longrightarrow>
   dirs w' = dirs w \<and> disk w' = disk w \<and> trace w' = trace w @ [Get url auth]"
  by (auto simp: axios_get_def split: prod.splits)

text \<open>The walk touches neither the local directories nor the files; its calls are GETs.\<close>

lemma getFiles_frame:
  fixes w :: "'w world"
  shows "getFiles n ax this p files w = Some (res, w') \<Longrightarrow>
           dirs w' = dirs w \<and> disk w' = disk w
           \<and> (\<exists>cs. trace w' = trace w @ cs \<and> (\<forall>c \<in> set cs. \<exists>u a. c = Get u a))"
    and "getFiles_items n ax items files w = Some (res, w') \<Longrightarrow>
           dirs w' = dirs w \<and> disk w' = disk w
           \<and> (\<exists>cs. trace w' = trace w @ cs \<and> (\<forall>c \<in> set cs. \<exists>u a. c = Get u a))"
proof (induction n ax this p files w and n ax items files w arbitrary: res w' and res w'
    rule: getFiles_getFiles_items.induct)
  case (1 ax this p files w)
  then show ?case by simp
next
  case (2 n ax this p files w)
  show ?case
  proof (cases this)
    case None
    with "2.prems" show ?thesis by auto
  next
    case (Some s)
    obtain r w1 where g: "axios_get ax (apiUrl s @ ''/'' @ p) (bearer s) w = (r, w1)"
      by (cases "axios_get ax (apiUrl s @ ''/'' @ p) (bearer s) w")
    note f = axios_get_frame [OF g]
    show ?thesis
    proof (cases r)
      case (Inl e)
      with "2.prems" Some g f show ?thesis by auto
    next
      case (Inr d)
      show ?thesis
      proof (cases d)
        case (Object sh c u)
        with "2.prems" Some g f Inr show ?thesis by auto
      next
        case (Array items)
        with "2.prems" Some g Inr
        have "getFiles_items n ax items files w1 = Some (res, w')" by simp
        from "2.IH" [OF Some g [symmetric] Inr Array this] f show ?thesis by auto
      qed
    qed
  qed
next
  case (3 n ax files w)
  then show ?case by simp
next
  case (4 n ax it items files w)
  show ?case
  proof (cases "type it = ''dir''")
    case True
    show ?thesis
    proof (cases "getFiles n ax None (path it) files w")
      case None
      with "4.prems" True show ?thesis by simp
    next
      case (Some rw)
      obtain r w1 where rw: "rw = (r, w1)" by (cases rw)
      note f = "4.IH"(1) [OF True Some [unfolded rw]]
      show ?thesis
      proof (cases r)
        case (Inl e)
        with "4.prems" True Some rw f show ?thesis by auto
      next
        case (Inr files1)
        with "4.prems" True Some rw
        have "getFiles_items n ax items files1 w1 = Some (res, w')" by simp
        from "4.IH"(2) [OF True Some rw [symmetric] Inr this] f show ?thesis by auto
      qed
    qed
  next
    case False
    with "4.prems" have "getFiles_items n ax items (files @ [file_ref_of it]) w = Some (res, w')"
      by simp
    from "4.IH"(3) [OF False this] show ?thesis .
  qed
qed

lemma axios_get_arraybuffer_frame:
  "axios_get_arraybuffer ax url auth w = (res, w') \<Longrightarrow>
   dirs w' = dirs w \<and> disk w' = disk w \<and> trace w' = trace w @ [GetArrayBuffer url auth]
   \<and> ax_get_arraybuffer ax url auth (remote w) = (res, remote w')"
  by (auto simp: axios_get_arraybuffer_def split: prod.splits)

text \<open>
  The loop of lines 282 to 290 never finalizes; the entries it adds to the file of
  the archive carry the names of the files it got through, in their order, and all
  of them when it succeeds.
\<close>

lemma append_files_frame:
  fixes w :: "'w world"
  shows "append_files ax this zp files w = (res, w') \<Longrightarrow> disk w zp = Some es0 \<Longrightarrow>
   dirs w' = dirs w
   \<and> (\<exists>cs. trace w' = trace w @ cs \<and> Finalize \<notin> set cs)
   \<and> (\<exists>es. disk w' zp = Some (es0 @ es) \<and> map fst es = take (length es) (map fr_name files)
          \<and> (res = Inr () \<longrightarrow> length es = length files))"
proof (induction files arbitrary: w es0)
  case Nil
  then show ?case by simp
next
  case (Cons f files)
  obtain r w1 where g: "axios_get_arraybuffer ax (fr_url f) (bearer this) w = (r, w1)"
    by (cases "axios_get_arraybuffer ax (fr_url f) (bearer this) w")
  note fr = axios_get_arraybuffer_frame [OF g]
  show ?case
  proof (cases r)
    case (Inl e)
    with Cons.prems g fr show ?thesis by auto
  next
    case (Inr c)
    let ?w2 = "archive_append zp c (fr_name f) w1"
    from Cons.prems(1) g Inr have a: "append_files ax this zp files ?w2 = (res, w')" by simp
    from Cons.prems(2) fr have d: "disk ?w2 zp = Some (es0 @ [(fr_name f, c)])"
      by (simp add: archive_append_def emit_def or_default_def)
    have t: "trace ?w2 = trace w @ [GetArrayBuffer (fr_url f) (bearer this), Append c (fr_name f)]"
      and dd: "dirs ?w2 = dirs w"
      using fr by (simp_all add: archive_append_def emit_def)
    from Cons.IH [OF a d] obtain cs es where
      1: "dirs w' = dirs ?w2" "trace w' = trace ?w2 @ cs" "Finalize \<notin> set cs"
      and 2: "disk w' zp = Some ((es0 @ [(fr_name f, c)]) @ es)"
        "map fst es = take (length es) (map fr_name files)"
        "res = Inr () \<longrightarrow> length es = length files"
      by blast
    from 1 t dd have "dirs w' = dirs w"
      and "\<exists>cs. trace w' = trace w @ cs \<and> Finalize \<notin> set cs" by auto
    moreover from 2 have "disk w' zp = Some (es0 @ ((fr_name f, c) # es))"
      and "map fst ((fr_name f, c) # es)
             = take (length ((fr_name f, c) # es)) (map fr_name (f # files))"
      and "res = Inr () \<longrightarrow> length ((fr_name f, c) # es) = length (f # files)"
      by auto
    ultimately show ?thesis by blast
  qed
qed

text \<open>
  The loop against the run of the store: it stops at the first retrieval that fails,
  with the error of that retrieval, and that request is the last call it makes.
\<close>

lemma append_files_first_failure:
  fixes w :: "'w world"
  shows "first_failure ax (bearer this) files (remote w) = Some (f, e, r') \<Longrightarrow>
   \<exists>w' cs. append_files ax this zp files w = (Inl e, w') \<and> remote w' = r'
         \<and> trace w' = cs @ [GetArrayBuffer (fr_url f) (bearer this)]"
proof (induction files arbitrary: w)
  case Nil
  then show ?case by simp
next
  case (Cons g files)
  obtain r s where a: "ax_get_arraybuffer ax (fr_url g) (bearer this) (remote w) = (r, s)"
    by (cases "ax_get_arraybuffer ax (fr_url g) (bearer this) (remote w)")
  let ?w1 = "w\<lparr>remote := s, trace := trace w @ [GetArrayBuffer (fr_url g) (bearer this)]\<rparr>"
  from a have g: "axios_get_arraybuffer ax (fr_url g) (bearer this) w = (r, ?w1)"
    by (simp add: axios_get_arraybuffer_def)
  show ?case
  proof (cases r)
    case (Inl e0)
    with Cons.prems a have "g = f" "e0 = e" "s = r'" by simp_all
    with g Inl show ?thesis by simp
  next
    case (Inr c)
    let ?w2 = "archive_append zp c (fr_name g) ?w1"
    have "remote ?w2 = s" by (simp add: archive_append_def emit_def)
    with Cons.prems a Inr have "first_failure ax (bearer this) files (remote ?w2) = Some (f, e, r')"
      by simp
    from Cons.IH [OF this] g Inr show ?thesis by simp
  qed
qed

lemma first_failure_sound:
  "first_failure ax auth files r = Some (f, e, r') \<Longrightarrow>
   f \<in> set files \<and> (\<exists>r0. ax_get_arraybuffer ax (fr_url f) auth r0 = (Inl e, r'))"
proof (induction files arbitrary: r)
  case Nil
  then show ?case by simp
next
  case (Cons g files)
  obtain x s where a: "ax_get_arraybuffer ax (fr_url g) auth r = (x, s)"
    by (cases "ax_get_arraybuffer ax (fr_url g) auth r")
  show ?case
  proof (cases x)
    case (Inl e0)
    with Cons.prems a show ?thesis by auto
  next
    case (Inr c)
    with Cons.prems a have "first_failure ax auth files s = Some (f, e, r')" by simp
    from Cons.IH [OF this] show ?thesis by auto
  qed
qed



lemma downloadAll_listed:
  fixes w :: "'w world"
  assumes "listFilesInDirectory fuel ax this (Some fp) w = Some (Inr files, w1)"
  shows "downloadAll fuel ax pj this (Some fp) sp w =
     (let full = pj [or_default [] sp];
          zp = pj [full, ''output.zip''];
          w2 = (if \<not> existsSync full w1 then mkdirSync full True w1 else w1);
          w5 = emit (Pipe zp) (emit (Archiver ''zip'' 9) (createWriteStream zp w2))
      in (case append_files ax this zp files w5 of
            (Inl e, w6) \<Rightarrow> Some (Inl (Error (''Error downloading files: '' @ message e)), w6)
          | (Inr u, w6) \<Rightarrow> Some (Inr (Promise zp), emit Finalize w6)))"
  using assms by (simp add: downloadAll_def Let_def or_default_def)

lemma prepared_world:
  fixes w1 :: "'w world"
  defines "w2 \<equiv> \<lambda>full. (if \<not> existsSync full w1 then mkdirSync full True w1 else w1)"
  defines "w5 \<equiv> \<lambda>full zp.
    emit (Pipe zp) (emit (Archiver ''zip'' 9) (createWriteStream zp (w2 full)))"
  shows "full \<in> dirs (w5 full zp)"
    and "disk (w5 full zp) zp = Some []"
    and "remote (w5 full zp) = remote w1"
    and "\<exists>cs. trace (w5 full zp) = trace w1 @ cs \<and> Finalize \<notin> set cs
            \<and> CreateWriteStream zp \<in> set cs
            \<and> (full \<notin> dirs w1 \<longrightarrow> MkdirSync full True \<in> set cs)"
  by (auto simp: w5_def w2_def existsSync_def mkdirSync_def emit_def createWriteStream_def)

text \<open>
  Claim C8. Let the walk of the folder return the list \<open>files\<close>, and let a retrieval
  of this job fail: in the run of the store from the state after the walk, \<open>f\<close> is the
  first file whose retrieval fails, with the error \<open>e\<close>. Then \<open>downloadAll\<close> returns no
  promise: it throws \<open>Error downloading files: \<close> followed by the message of \<open>e\<close>. The
  failed request is the last call of the job, so nothing is retried and no later file
  is retrieved, the store is in the state in which that request left it, and the job
  has not called \<open>finalize\<close> on the archive.
\<close>

theorem downloadAll_aborts_on_failed_retrieval:
  fixes w :: "'w world"
  assumes "listFilesInDirectory fuel ax this (Some fp) w = Some (Inr files, w1)"
    and "first_failure ax (bearer this) files (remote w1) = Some (f, e, r')"
  shows "\<exists>w' cs.
           downloadAll fuel ax pj this (Some fp) sp w
             = Some (Inl (Error (''Error downloading files: '' @ message e)), w')
           \<and> remote w' = r'
           \<and> trace w' = cs @ [GetArrayBuffer (fr_url f) (bearer this)]
           \<and> (Finalize \<in> set (trace w') \<longrightarrow> Finalize \<in> set (trace w))
           \<and> f \<in> set files
           \<and> (\<exists>r0. ax_get_arraybuffer ax (fr_url f) (bearer this) r0 = (Inl e, r'))"
proof -
  define full where "full = pj [or_default [] sp]"
  define zp where "zp = pj [full, ''output.zip'']"
  define w5 where "w5 = emit (Pipe zp) (emit (Archiver ''zip'' 9) (createWriteStream zp
      (if \<not> existsSync full w1 then mkdirSync full True w1 else w1)))"
  from prepared_world(2,3,4) [where ?w1.0 = w1 and full = full and zp = zp] obtain c2 where
    t2: "trace w5 = trace w1 @ c2" "Finalize \<notin> set c2" and d5: "disk w5 zp = Some []"
    and r5: "remote w5 = remote w1"
    unfolding w5_def by blast
  from assms(2) r5 have "first_failure ax (bearer this) files (remote w5) = Some (f, e, r')"
    by simp
  from append_files_first_failure [OF this] obtain w' cs where
    a: "append_files ax this zp files w5 = (Inl e, w')" and r: "remote w' = r'"
    and l: "trace w' = cs @ [GetArrayBuffer (fr_url f) (bearer this)]" by blast
  have d: "downloadAll fuel ax pj this (Some fp) sp w
      = Some (Inl (Error (''Error downloading files: '' @ message e)), w')"
    unfolding downloadAll_listed [OF assms(1)] Let_def full_def [symmetric] zp_def [symmetric]
      w5_def [symmetric] a
    by simp
  from getFiles_frame(1) [OF assms(1) [unfolded listFilesInDirectory_def]]
  obtain c1 where t1: "trace w1 = trace w @ c1" "\<forall>c \<in> set c1. \<exists>u a. c = Get u a" by blast
  from append_files_frame [OF a d5] obtain c3 where
    t3: "trace w' = trace w5 @ c3" "Finalize \<notin> set c3" by blast
  from t1 t2 t3 have "Finalize \<in> set (trace w') \<longrightarrow> Finalize \<in> set (trace w)" by auto
  with d r l first_failure_sound [OF assms(2)] show ?thesis by blast
qed

text \<open>
  The folder \<open>flat\<close> with a quota of one retrieval: \<open>c.txt\<close> is retrieved and appended,
  the retrieval of \<open>d.txt\<close> is refused with 429, and the job throws with the one entry
  in a file that is never finalized.
\<close>

theorem downloadAll_aborts_on_failed_retrieval_witness:
  "first_failure quota_ax (bearer this0) [file_ref_of c_txt, file_ref_of d_txt] 1
     = Some (file_ref_of d_txt, too_many, 0)
   \<and> downloadAll 1 quota_ax slash_join this0 (Some ''flat'') (Some ''out'') (world0 1)
     = Some (Inl (Error ''Error downloading files: Request failed with status code 429''),
             \<lparr>remote = 0, dirs = {''out''},
              disk = [''out/output.zip'' \<mapsto> [(''c.txt'', ''bytes'')]],
              trace = [Get ''https://api.github.com/repos/o/r/contents/flat'' ''Bearer t'',
                       MkdirSync ''out'' True, CreateWriteStream ''out/output.zip'',
                       Archiver ''zip'' 9, Pipe ''out/output.zip'',
                       GetArrayBuffer (Some ''https://raw.example/flat/c.txt'') ''Bearer t'',
                       Append ''bytes'' ''c.txt'',
                       GetArrayBuffer (Some ''https://raw.example/flat/d.txt'') ''Bearer t'']\<rparr>)"
proof -
  have l: "listFilesInDirectory 1 quota_ax this0 (Some ''flat'') (world0 1)
     = Some (Inr [file_ref_of c_txt, file_ref_of d_txt],
             \<lparr>remote = 1, dirs = {}, disk = Map.empty,
              trace = [Get ''https://api.github.com/repos/o/r/contents/flat'' ''Bearer t'']\<rparr>)"
    by (simp add: listFilesInDirectory_def or_default_def axios_get_def quota_ax_def
        this0_def world0_def c_txt_def d_txt_def bearer_def)
  have ff: "first_failure quota_ax (bearer this0) [file_ref_of c_txt, file_ref_of d_txt]
      (remote \<lparr>remote = 1, dirs = {}, disk = Map.empty,
              trace = [Get ''https://api.github.com/repos/o/r/contents/flat'' ''Bearer t'']\<rparr>)
     = Some (file_ref_of d_txt, too_many, 0)"
    by (simp add: quota_ax_def)
  have j: "slash_join [''out''] = ''out''" "slash_join [''out'', ''output.zip''] = ''out/output.zip''"
    by (simp_all add: slash_join_def)
  from downloadAll_aborts_on_failed_retrieval [OF l ff, of slash_join "Some ''out''"] l ff j
  show ?thesis
    by (simp add: downloadAll_def Let_def or_default_def existsSync_def mkdirSync_def emit_def
        createWriteStream_def archive_append_def axios_get_arraybuffer_def quota_ax_def
        file_ref_of_def c_txt_def d_txt_def bearer_def this0_def too_many_def)
qed




end
